theory Spec2Isabelle
  imports Main "HOL-Library.AList"
begin

section \<open>Python objects: values, events, queues\<close>

text \<open>
  Objects that the program shares by reference (actors, queues, events) live in stores
  indexed by their identity. Two names denote the same object exactly when they hold the
  same reference. Every reference denotes an object, so the stores are total functions;
  the allocation counters say which references are in use.
\<close>

type_synonym aref = nat
type_synonym qref = nat
type_synonym eref = nat
type_synonym timestamp = nat

datatype pyval =
    PNone
  | PInt int
  | PStr string
  | PClock timestamp
  | PTuple "pyval list"
  | PList "pyval list"
  | PDict "(string \<times> pyval) list"

text \<open>
  Modelled from the spec: the event class of \<open>compysition.event\<close> is not part of the
  sources at hand. An event is a mutable object with an identifier, a \<open>data\<close> payload, a
  \<open>service\<close> tag and a header map. Payloads are held by value in the event's own cell.
\<close>

record event =
  event_id :: string
  data :: pyval
  service :: string
  header :: "(string \<times> pyval) list"

text \<open>What a queue holds: an event object, or a plain value such as a metric dictionary.\<close>

datatype pyobj = Event_obj eref | Value_obj pyval

text \<open>Python dictionaries whose iteration order is observed are association lists.\<close>

type_synonym ('k, 'v) dict = "('k \<times> 'v) list"

definition dict_get :: "('k, 'v) dict \<Rightarrow> 'k \<Rightarrow> 'v option" where
  "dict_get d k = map_of d k"

definition dict_set :: "('k, 'v) dict \<Rightarrow> 'k \<Rightarrow> 'v \<Rightarrow> ('k, 'v) dict" where
  "dict_set d k v = AList.update k v d"

definition dict_values :: "('k, 'v) dict \<Rightarrow> 'v list" where
  "dict_values d = map snd d"

datatype wait =
    Wait_until_empty qref
  | Wait_until_free qref
  | Wait_until_content qref
  | Wait_run aref
  | Wait_director_block
  | Sleep nat

text \<open>
  The exceptions of \<open>compysition.errors\<close> that the actor and the director import, the
  \<open>KeyError\<close> of a failed dictionary subscript, any other \<open>Exception\<close>, and the exceptions
  that derive from \<open>BaseException\<close> only (\<open>KeyboardInterrupt\<close>, \<open>SystemExit\<close>, a killed
  greenlet), which \<open>except Exception\<close> does not catch. \<open>QueueFull\<close> and \<open>QueueEmpty\<close> carry
  the queue whose waiters they expose.
\<close>

datatype error =
    QueueEmpty qref
  | QueueFull qref
  | QueueConnected string
  | SetupError string
  | NoConnectedQueues
  | ModuleInitFailure string
  | NoSuchModule
  | KeyError string
  | Other_exception string
  | Base_exception string

fun is_Exception :: "error \<Rightarrow> bool" where
  "is_Exception (Base_exception _) = False"
| "is_Exception _ = True"

text \<open>
  A call returns, raises, or suspends the calling greenlet on a waiter. Each outcome carries
  the state reached at that point. A suspended call is resumed by the scheduler once the
  waiter fires; the sequential model stops there.
\<close>

datatype 'a outcome = Returned 'a | Raised error 'a | Blocked wait 'a

fun state_of :: "'a outcome \<Rightarrow> 'a" where
  "state_of (Returned s) = s"
| "state_of (Raised _ s) = s"
| "state_of (Blocked _ s) = s"

fun and_then :: "'a outcome \<Rightarrow> ('a \<Rightarrow> 'a outcome) \<Rightarrow> 'a outcome" where
  "and_then (Returned s) f = f s"
| "and_then (Raised e s) f = Raised e s"
| "and_then (Blocked w s) f = Blocked w s"

text \<open>
  Modelled from the spec: the queue class of \<open>compysition.queue\<close> is not part of the
  sources at hand. A queue is a named FIFO with a capacity (0 means unbounded). \<open>put\<close>
  appends at the tail and fails with "full" when the size equals a positive capacity;
  \<open>get\<close> pops the head and fails with "empty" when the size is 0; \<open>rescue\<close> reinserts
  at the head. The waiters are represented by the \<open>Blocked\<close> outcome of the callers.
\<close>

record queue =
  qname :: string
  max_size :: nat
  content :: "pyobj list"

definition qsize :: "queue \<Rightarrow> nat" where
  "qsize q = length (content q)"

definition put :: "qref \<Rightarrow> queue \<Rightarrow> pyobj \<Rightarrow> error + queue" where
  "put r q x =
     (if max_size q > 0 \<and> qsize q = max_size q then Inl (QueueFull r)
      else Inr (q\<lparr>content := content q @ [x]\<rparr>))"

definition get :: "qref \<Rightarrow> queue \<Rightarrow> error + (pyobj \<times> queue)" where
  "get r q =
     (case content q of
        [] \<Rightarrow> Inl (QueueEmpty r)
      | x # xs \<Rightarrow> Inr (x, q\<lparr>content := xs\<rparr>))"

definition rescue :: "queue \<Rightarrow> pyobj \<Rightarrow> queue" where
  "rescue q x = q\<lparr>content := x # content q\<rparr>"

section \<open>Actors and the world they live in\<close>

text \<open>
  Modelled from the spec: the pool class of \<open>compysition.queue\<close> is not part of the
  sources at hand. A pool has four name-to-queue mappings: inbound, outbound, error, and
  the reserved outbound queues \<open>logs\<close>, \<open>metrics\<close> and \<open>failed\<close>
  (\<open>default_outbound_queues\<close> in the actor's code).
\<close>

record pool =
  pool_size :: nat
  inbound_queues :: "(string, qref) dict"
  outbound_queues :: "(string, qref) dict"
  error_queues :: "(string, qref) dict"
  default_outbound_queues :: "(string, qref) dict"

datatype scope = Default_outbound | Outbound

datatype level = Debug | Info | Error

text \<open>
  Modelled from the spec: the logger class of \<open>compysition.qlogger\<close> is not part of the
  sources at hand. The logger is attached to a queue and keeps the records logged through it.
\<close>

record qlogger =
  logs_queue :: "qref option"
  records :: "(level \<times> string) list"

text \<open>The functions an actor hands to its supervised pool, with the \<open>restart\<close> flag.\<close>

datatype worker =
    Consumer qref
  | Metric_emitter
  | Do_consume eref qref pyval

record actor =
  name :: string
  size_a :: nat
  frequency :: nat
  pool :: pool
  logger :: qlogger
  loop :: bool
  threads :: "(worker \<times> bool) list"
  generate_metrics :: bool
  run :: bool
  block :: bool
  blocking_consume :: bool
  null_instance :: bool

record director =
  d_actors :: "(string, aref) dict"
  d_size :: nat
  d_frequency :: nat
  d_generate_metrics :: bool
  metric_actor :: aref
  log_actor :: aref
  failed_actor :: aref
  running :: bool
  d_block :: bool

text \<open>
  The calls whose order the lifecycle is about: setting a gate (\<open>Event.set()\<close>), joining
  an actor's supervised pool, and running a hook. \<open>trace\<close> lists them in program order.
\<close>

datatype gate = Run_gate aref | Block_gate aref | Director_gate

datatype action =
    Set_gate gate
  | Join_pool aref
  | Call_pre_hook aref
  | Call_post_hook aref

record world =
  actor_at :: "aref \<Rightarrow> actor"
  queue_at :: "qref \<Rightarrow> queue"
  event_at :: "eref \<Rightarrow> event"
  next_actor :: nat
  next_queue :: nat
  next_event :: nat
  director :: director
  stdout :: "string list"
  stderr :: "string list"
  trace :: "action list"
  time_reads :: nat

definition update_actor :: "aref \<Rightarrow> (actor \<Rightarrow> actor) \<Rightarrow> world \<Rightarrow> world" where
  "update_actor a f st = st\<lparr>actor_at := (actor_at st)(a := f (actor_at st a))\<rparr>"

definition update_pool :: "aref \<Rightarrow> (pool \<Rightarrow> pool) \<Rightarrow> world \<Rightarrow> world" where
  "update_pool a f st = update_actor a (\<lambda>x. x\<lparr>pool := f (pool x)\<rparr>) st"

definition update_queue :: "qref \<Rightarrow> (queue \<Rightarrow> queue) \<Rightarrow> world \<Rightarrow> world" where
  "update_queue r f st = st\<lparr>queue_at := (queue_at st)(r := f (queue_at st r))\<rparr>"

definition log_record :: "aref \<Rightarrow> level \<Rightarrow> string \<Rightarrow> world \<Rightarrow> world" where
  "log_record a l msg st =
     update_actor a (\<lambda>x. x\<lparr>logger := (logger x)\<lparr>records := records (logger x) @ [(l, msg)]\<rparr>\<rparr>) st"

definition spawn :: "aref \<Rightarrow> worker \<Rightarrow> bool \<Rightarrow> world \<Rightarrow> world" where
  "spawn a w restart st = update_actor a (\<lambda>x. x\<lparr>threads := threads x @ [(w, restart)]\<rparr>) st"

subsection \<open>Pool operations\<close>

text \<open>
  Modelled from the spec: \<open>add_inbound(name, queue=None)\<close>: if \<open>queue\<close> is given, adopt
  the shared object; else create a fresh bounded queue. \<open>add_outbound\<close> and \<open>add_error\<close>
  have the same shape. Each installs the queue under the name and returns it.
\<close>

definition new_queue :: "string \<Rightarrow> nat \<Rightarrow> world \<Rightarrow> qref \<times> world" where
  "new_queue n cap st =
     (next_queue st,
      st\<lparr>queue_at := (queue_at st)(next_queue st := \<lparr>qname = n, max_size = cap, content = []\<rparr>),
         next_queue := Suc (next_queue st)\<rparr>)"

definition queue_or_new :: "aref \<Rightarrow> string \<Rightarrow> qref option \<Rightarrow> world \<Rightarrow> qref \<times> world" where
  "queue_or_new a n queue st =
     (case queue of
        Some q \<Rightarrow> (q, st)
      | None \<Rightarrow> new_queue n (pool_size (pool (actor_at st a))) st)"

definition add_inbound_queue :: "aref \<Rightarrow> string \<Rightarrow> qref option \<Rightarrow> world \<Rightarrow> qref \<times> world" where
  "add_inbound_queue a n queue st =
     (case queue_or_new a n queue st of
        (q, st1) \<Rightarrow> (q, update_pool a (\<lambda>p. p\<lparr>inbound_queues := dict_set (inbound_queues p) n q\<rparr>) st1))"

definition add_outbound_queue :: "aref \<Rightarrow> string \<Rightarrow> qref option \<Rightarrow> world \<Rightarrow> qref \<times> world" where
  "add_outbound_queue a n queue st =
     (case queue_or_new a n queue st of
        (q, st1) \<Rightarrow> (q, update_pool a (\<lambda>p. p\<lparr>outbound_queues := dict_set (outbound_queues p) n q\<rparr>) st1))"

definition add_error_queue :: "aref \<Rightarrow> string \<Rightarrow> qref option \<Rightarrow> world \<Rightarrow> qref \<times> world" where
  "add_error_queue a n queue st =
     (case queue_or_new a n queue st of
        (q, st1) \<Rightarrow> (q, update_pool a (\<lambda>p. p\<lparr>error_queues := dict_set (error_queues p) n q\<rparr>) st1))"

text \<open>
  Modelled from the spec: \<open>move(src_queue, dst_queue, scope)\<close>: replace \<open>src_queue\<close> in
  \<open>scope\<close> with \<open>dst_queue\<close> under the same name, preserving any already-pending content
  by draining \<open>src_queue\<close> into \<open>dst_queue\<close>.
\<close>

definition replace_queue :: "qref \<Rightarrow> qref \<Rightarrow> (string, qref) dict \<Rightarrow> (string, qref) dict" where
  "replace_queue src dst d = map (\<lambda>(n, q). (n, if q = src then dst else q)) d"

definition drain :: "qref \<Rightarrow> qref \<Rightarrow> world \<Rightarrow> world" where
  "drain src dst st =
     (if src = dst then st
      else update_queue src (\<lambda>q. q\<lparr>content := []\<rparr>)
             (update_queue dst (\<lambda>q. q\<lparr>content := content q @ content (queue_at st src)\<rparr>) st))"

definition move_queue :: "aref \<Rightarrow> qref \<Rightarrow> qref \<Rightarrow> scope \<Rightarrow> world \<Rightarrow> world" where
  "move_queue a src dst queue_scope st =
     update_pool a
       (\<lambda>p. case queue_scope of
              Default_outbound \<Rightarrow>
                p\<lparr>default_outbound_queues := replace_queue src dst (default_outbound_queues p)\<rparr>
            | Outbound \<Rightarrow> p\<lparr>outbound_queues := replace_queue src dst (outbound_queues p)\<rparr>)
       (drain src dst st)"

subsection \<open>Wiring: \<open>Actor.connect_queue\<close> and \<open>Actor.register_consumer\<close>\<close>

definition register_consumer :: "aref \<Rightarrow> string \<Rightarrow> qref \<Rightarrow> world \<Rightarrow> world" where
  "register_consumer self queue_name queue st =
     spawn self (Consumer queue) True (snd (add_inbound_queue self queue_name (Some queue) st))"

definition already_connected :: "string \<Rightarrow> string" where
  "already_connected queue_name = ''Queue '' @ queue_name @ '' is already connected''"

definition connected_message :: "string \<Rightarrow> string \<Rightarrow> string \<Rightarrow> string" where
  "connected_message s d dq =
     ''Connected queue '' @ [CHR 0x27] @ s @ [CHR 0x27, CHR 0x27] @ '' to '' @ [CHR 0x27]
       @ d @ ''.'' @ dq @ [CHR 0x27]"

text \<open>
  A queue object counts as true in \<open>if source_queue\<close>, so the tests distinguish a queue
  found under the name from \<open>None\<close>. The source is looked up among the reserved outbound
  queues first, then among the plain outbound queues.
\<close>

definition source_lookup :: "pool \<Rightarrow> string \<Rightarrow> qref option \<times> scope" where
  "source_lookup p source_queue_name =
     (case dict_get (default_outbound_queues p) source_queue_name of
        Some q \<Rightarrow> (Some q, Default_outbound)
      | None \<Rightarrow> (dict_get (outbound_queues p) source_queue_name, Outbound))"

definition connect_queue ::
  "aref \<Rightarrow> string \<Rightarrow> aref \<Rightarrow> string \<Rightarrow> bool \<Rightarrow> bool \<Rightarrow> world \<Rightarrow> world outcome" where
  "connect_queue self source_queue_name destination destination_queue_name error_queue
     check_existing st =
     (case source_lookup (pool (actor_at st self)) source_queue_name of
        (source_queue, source_queue_scope) \<Rightarrow>
     (let destination_queue =
            dict_get (inbound_queues (pool (actor_at st destination))) destination_queue_name
      in if check_existing \<and> source_queue \<noteq> None
         then Raised (QueueConnected (already_connected source_queue_name)) st
         else if check_existing \<and> destination_queue \<noteq> None
         then Raised (QueueConnected (already_connected destination_queue_name)) st
         else
           (let st' =
              (case source_queue of
                 None \<Rightarrow>
                   (case destination_queue of
                      None \<Rightarrow>
                        (case (if \<not> error_queue
                               then add_outbound_queue self source_queue_name None st
                               else add_error_queue self source_queue_name None st) of
                           (q, st1) \<Rightarrow> register_consumer destination destination_queue_name q st1)
                    | Some dq \<Rightarrow>
                        (if \<not> error_queue
                         then snd (add_outbound_queue self source_queue_name (Some dq) st)
                         else snd (add_error_queue self source_queue_name (Some dq) st)))
               | Some sq \<Rightarrow>
                   (case destination_queue of
                      None \<Rightarrow> register_consumer destination destination_queue_name sq st
                    | Some dq \<Rightarrow> move_queue self sq dq source_queue_scope st))
            in Returned
                 (log_record self Info
                    (connected_message source_queue_name (name (actor_at st' destination))
                       destination_queue_name) st'))))"

definition connect_error_queue ::
  "aref \<Rightarrow> string \<Rightarrow> aref \<Rightarrow> string \<Rightarrow> bool \<Rightarrow> world \<Rightarrow> world outcome" where
  "connect_error_queue self source_queue_name destination destination_queue_name check_existing st =
     connect_queue self source_queue_name destination destination_queue_name True check_existing st"

subsection \<open>What the actor's code calls but does not define\<close>

text \<open>
  The hooks are methods of subclasses (\<open>hasattr\<close> tells whether an actor has one), the
  supervised pool's \<open>join\<close> is the pool library's, \<open>format_exc\<close>, \<open>time\<close> and
  \<open>gethostname\<close> are library calls, and \<open>stats\<close> is the queue's own report. They are
  parameters. \<open>time_at env n\<close> is what the \<open>n\<close>-th call of \<open>time()\<close> returns.
\<close>

record env =
  pre_hook :: "aref \<Rightarrow> (world \<Rightarrow> world outcome) option"
  post_hook :: "aref \<Rightarrow> (world \<Rightarrow> world outcome) option"
  threads_join :: "aref \<Rightarrow> world \<Rightarrow> world outcome"
  format_exc :: "error \<Rightarrow> string"
  time_at :: "nat \<Rightarrow> timestamp"
  gethostname :: string
  stats :: "queue \<Rightarrow> (string, pyval) dict"

text \<open>
  A call into such code is entered in the trace when it is made; the callee then runs on the
  extended trace and whatever it enters itself stays.
\<close>

definition traced :: "action \<Rightarrow> (world \<Rightarrow> world outcome) \<Rightarrow> world \<Rightarrow> world outcome" where
  "traced act f st = f (st\<lparr>trace := trace st @ [act]\<rparr>)"

fun set_gate :: "gate \<Rightarrow> world \<Rightarrow> world" where
  "set_gate (Run_gate a) st =
     (update_actor a (\<lambda>x. x\<lparr>run := True\<rparr>) st)\<lparr>trace := trace st @ [Set_gate (Run_gate a)]\<rparr>"
| "set_gate (Block_gate a) st =
     (update_actor a (\<lambda>x. x\<lparr>block := True\<rparr>) st)\<lparr>trace := trace st @ [Set_gate (Block_gate a)]\<rparr>"
| "set_gate Director_gate st =
     st\<lparr>director := (director st)\<lparr>d_block := True\<rparr>, trace := trace st @ [Set_gate Director_gate]\<rparr>"

subsection \<open>Construction: \<open>Actor.__init__\<close>\<close>

text \<open>
  Modelled from the spec: the pool's constructor is not part of the sources at hand. A new
  pool has no inbound, outbound or error queues, and three fresh reserved outbound queues
  \<open>logs\<close>, \<open>metrics\<close> and \<open>failed\<close>.
\<close>

definition new_pool :: "nat \<Rightarrow> world \<Rightarrow> pool \<times> world" where
  "new_pool n st =
     (case new_queue ''logs'' n st of (l, st1) \<Rightarrow>
      case new_queue ''metrics'' n st1 of (m, st2) \<Rightarrow>
      case new_queue ''failed'' n st2 of (f, st3) \<Rightarrow>
        (\<lparr>pool_size = n, inbound_queues = [], outbound_queues = [], error_queues = [],
          default_outbound_queues = [(''logs'', l), (''metrics'', m), (''failed'', f)]\<rparr>, st3))"

text \<open>
  The class an actor is created from matters in one place: the director asks whether a sink
  is an instance of \<open>Null\<close>. Every class runs the base constructor.
\<close>

datatype actor_class = Null | Actor_class string

definition Actor_init ::
  "actor_class \<Rightarrow> string \<Rightarrow> nat \<Rightarrow> nat \<Rightarrow> bool \<Rightarrow> bool \<Rightarrow> world \<Rightarrow> aref \<times> world" where
  "Actor_init cls n sz freq gen_metrics blocking st =
     (case new_pool sz st of (p, st1) \<Rightarrow>
        (next_actor st1,
         st1\<lparr>actor_at := (actor_at st1)(next_actor st1 :=
                \<lparr>name = n, size_a = sz, frequency = freq, pool = p,
                 logger = \<lparr>logs_queue = None, records = []\<rparr>,
                 loop = True, threads = [], generate_metrics = gen_metrics,
                 run = False, block = False, blocking_consume = blocking,
                 null_instance = (cls = Null)\<rparr>),
             next_actor := Suc (next_actor st1)\<rparr>))"

subsection \<open>Lifecycle: \<open>Actor.start\<close> and \<open>Actor.stop\<close>\<close>

definition digit_char :: "nat \<Rightarrow> char" where
  "digit_char n = char_of (48 + n)"

function show_nat :: "nat \<Rightarrow> string" where
  "show_nat n = (if n < 10 then [digit_char n] else show_nat (n div 10) @ [digit_char (n mod 10)])"
  by pat_completeness auto
termination
  by (relation "measure id") auto

definition started_message :: "nat \<Rightarrow> nat \<Rightarrow> string" where
  "started_message sz interval =
     ''Started with max queue size of '' @ show_nat sz @ '' events and metrics interval of ''
       @ show_nat interval @ '' seconds.''"

definition Actor_start :: "env \<Rightarrow> aref \<Rightarrow> world \<Rightarrow> world outcome" where
  "Actor_start env self st =
     (case dict_get (default_outbound_queues (pool (actor_at st self))) ''logs'' of
        None \<Rightarrow> Raised (KeyError ''logs'') st
      | Some lq \<Rightarrow>
          (let st1 = update_actor self (\<lambda>x. x\<lparr>logger := (logger x)\<lparr>logs_queue := Some lq\<rparr>\<rparr>) st;
               st2 = (if generate_metrics (actor_at st1 self)
                      then spawn self Metric_emitter True st1 else st1)
           in and_then
                (case pre_hook env self of
                   None \<Rightarrow> Returned st2
                 | Some h \<Rightarrow>
                     traced (Call_pre_hook self) h
                       (log_record self Debug ''pre_hook() found, executing'' st2))
                (\<lambda>st3. Returned
                   (log_record self Debug
                      (started_message (size_a (actor_at st3 self)) (frequency (actor_at st3 self)))
                      (set_gate (Run_gate self) st3)))))"

definition Actor_stop :: "env \<Rightarrow> aref \<Rightarrow> world \<Rightarrow> world outcome" where
  "Actor_stop env self st =
     (let st1 = update_actor self (\<lambda>x. x\<lparr>loop := False\<rparr>) st;
          st2 = set_gate (Block_gate self) st1
      in and_then (traced (Join_pool self) (threads_join env self) st2)
           (\<lambda>st3. case post_hook env self of
                     None \<Rightarrow> Returned st3
                   | Some h \<Rightarrow>
                       traced (Call_post_hook self) h
                         (log_record self Debug ''post_hook() found, executing'' st3)))"

subsection \<open>Sending: \<open>send_event\<close>, \<open>send_error\<close>, \<open>__loop_submit\<close>, \<open>__submit\<close>\<close>

text \<open>
  \<open>__submit\<close> puts while the actor's loop flag holds. On "full" it waits until the queue
  is empty and tries again: the model suspends there. Any other failure of \<open>put\<close> is raised
  again as a plain exception (its message is built from the queue and the error; the model
  keeps the template).
\<close>

definition submit :: "aref \<Rightarrow> pyobj \<Rightarrow> qref \<Rightarrow> world \<Rightarrow> world outcome" where
  "submit self ev queue st =
     (if loop (actor_at st self)
      then (case put queue (queue_at st queue) ev of
              Inr q' \<Rightarrow> Returned (st\<lparr>queue_at := (queue_at st)(queue := q')\<rparr>)
            | Inl err \<Rightarrow>
                (case err of
                   QueueFull r \<Rightarrow> Blocked (Wait_until_empty r) st
                 | _ \<Rightarrow> Raised (Other_exception ''Tried to put to {queue}. Exception was {err}'') st))
      else Returned st)"

text \<open>
  \<open>deepcopy\<close> of an event makes a new object with equal fields (the identifier included).
\<close>

definition deepcopy_event :: "eref \<Rightarrow> world \<Rightarrow> eref \<times> world" where
  "deepcopy_event e st =
     (next_event st,
      st\<lparr>event_at := (event_at st)(next_event st := event_at st e),
         next_event := Suc (next_event st)\<rparr>)"

fun submit_copies :: "aref \<Rightarrow> eref \<Rightarrow> qref list \<Rightarrow> world \<Rightarrow> world outcome" where
  "submit_copies self e [] st = Returned st"
| "submit_copies self e (queue # queues) st =
     (case deepcopy_event e st of
        (c, st1) \<Rightarrow> and_then (submit self (Event_obj c) queue st1) (submit_copies self e queues))"

definition loop_submit :: "aref \<Rightarrow> eref \<Rightarrow> qref list \<Rightarrow> world \<Rightarrow> world outcome" where
  "loop_submit self e queues st =
     (case queues of
        [] \<Rightarrow> Returned st
      | queue # rest \<Rightarrow> and_then (submit self (Event_obj e) queue st) (submit_copies self e rest))"


text \<open>\<open>if queues\<close> holds for a list that is given and not empty.\<close>

definition given_or :: "'a list option \<Rightarrow> 'a list \<Rightarrow> 'a list" where
  "given_or queues dflt = (case queues of Some (q # qs) \<Rightarrow> q # qs | _ \<Rightarrow> dflt)"

definition send_event :: "aref \<Rightarrow> eref \<Rightarrow> qref option \<Rightarrow> qref list option \<Rightarrow> world \<Rightarrow> world outcome" where
  "send_event self e queue queues st =
     (case queue of
        Some q \<Rightarrow> submit self (Event_obj e) q st
      | None \<Rightarrow>
          loop_submit self e
            (given_or queues (dict_values (outbound_queues (pool (actor_at st self))))) st)"

definition send_error :: "aref \<Rightarrow> eref \<Rightarrow> qref option \<Rightarrow> qref list option \<Rightarrow> world \<Rightarrow> world outcome" where
  "send_error self e queue queues st =
     (let queues' = given_or queues (dict_values (error_queues (pool (actor_at st self))))
      in if queues' \<noteq> [] \<or> queue \<noteq> None
         then send_event self e queue (Some queues') st
         else Returned st)"

subsection \<open>Consuming: \<open>__consumer\<close> and \<open>__do_consume\<close>\<close>

type_synonym consume = "eref \<Rightarrow> string \<Rightarrow> qref \<Rightarrow> world \<Rightarrow> world outcome"

definition set_data :: "eref \<Rightarrow> pyval \<Rightarrow> world \<Rightarrow> world" where
  "set_data e d st = st\<lparr>event_at := (event_at st)(e := (event_at st e)\<lparr>data := d\<rparr>)\<rparr>"

definition do_consume ::
  "env \<Rightarrow> aref \<Rightarrow> consume \<Rightarrow> eref \<Rightarrow> qref \<Rightarrow> pyval \<Rightarrow> world \<Rightarrow> world outcome" where
  "do_consume env self function e queue original_data st =
     (case function e (qname (queue_at st queue)) queue st of
        Returned s \<Rightarrow> Returned s
      | Blocked w s \<Rightarrow> Blocked w s
      | Raised err s \<Rightarrow>
          (case err of
             QueueFull r \<Rightarrow>
               Blocked (Wait_until_free r)
                 (update_queue queue (\<lambda>q. rescue q (Event_obj e)) (set_data e original_data s))
           | _ \<Rightarrow>
               if is_Exception err
               then Returned
                      (log_record self Error (format_exc env err)
                         (s\<lparr>stdout := stdout s @ [format_exc env err]\<rparr>))
               else Raised err s))"

text \<open>
  The consumer greenlet, one step at a time: the wait on the started gate, one turn of the
  main loop, one turn of the drain loop. A value that is not an event has no \<open>data\<close>
  attribute.
\<close>

datatype consumer_pc = At_run_wait | In_loop | Draining | Exited

fun with_pc :: "consumer_pc \<Rightarrow> world outcome \<Rightarrow> (consumer_pc \<times> world) outcome" where
  "with_pc pc (Returned s) = Returned (pc, s)"
| "with_pc pc (Raised e s) = Raised e (pc, s)"
| "with_pc pc (Blocked w s) = Blocked w (pc, s)"

definition dispatch ::
  "env \<Rightarrow> aref \<Rightarrow> consume \<Rightarrow> qref \<Rightarrow> bool \<Rightarrow> consumer_pc \<Rightarrow> pyobj \<Rightarrow> world
     \<Rightarrow> (consumer_pc \<times> world) outcome" where
  "dispatch env self function queue inline pc x st =
     (case x of
        Value_obj v \<Rightarrow> Raised (Other_exception ''AttributeError'') (pc, st)
      | Event_obj e \<Rightarrow>
          (let original_data = data (event_at st e)
           in if inline
              then with_pc pc (do_consume env self function e queue original_data st)
              else Returned (pc, spawn self (Do_consume e queue original_data) False st)))"

fun consumer_step ::
  "env \<Rightarrow> aref \<Rightarrow> consume \<Rightarrow> qref \<Rightarrow> consumer_pc \<Rightarrow> world \<Rightarrow> (consumer_pc \<times> world) outcome" where
  "consumer_step env self function queue At_run_wait st =
     (if run (actor_at st self) then Returned (In_loop, st)
      else Blocked (Wait_run self) (At_run_wait, st))"
| "consumer_step env self function queue In_loop st =
     (if loop (actor_at st self)
      then (if qsize (queue_at st queue) > 0
            then (case get queue (queue_at st queue) of
                    Inl err \<Rightarrow> Blocked (Wait_until_content queue) (In_loop, st)
                  | Inr (x, q') \<Rightarrow>
                      dispatch env self function queue (blocking_consume (actor_at st self))
                        In_loop x (st\<lparr>queue_at := (queue_at st)(queue := q')\<rparr>))
            else Blocked (Wait_until_content queue) (In_loop, st))
      else Returned (Draining, st))"
| "consumer_step env self function queue Draining st =
     (if qsize (queue_at st queue) > 0
      then (case get queue (queue_at st queue) of
              Inl err \<Rightarrow> Returned (Exited, st)
            | Inr (x, q') \<Rightarrow>
                dispatch env self function queue False Draining x
                  (st\<lparr>queue_at := (queue_at st)(queue := q')\<rparr>))
      else Returned (Exited, st))"
| "consumer_step env self function queue Exited st = Returned (Exited, st)"

text \<open>
  The greenlet from its first statement: steps are taken until the consumer suspends, raises
  or has left the drain loop, or until the given number of steps is used up.
\<close>

fun consumer_run ::
  "env \<Rightarrow> aref \<Rightarrow> consume \<Rightarrow> qref \<Rightarrow> nat \<Rightarrow> consumer_pc \<Rightarrow> world
     \<Rightarrow> (consumer_pc \<times> world) outcome" where
  "consumer_run env self function queue 0 pc st = Returned (pc, st)"
| "consumer_run env self function queue (Suc n) pc st =
     (case consumer_step env self function queue pc st of
        Returned (pc', st') \<Rightarrow>
          (if pc' = Exited then Returned (Exited, st')
           else consumer_run env self function queue n pc' st')
      | Raised err x \<Rightarrow> Raised err x
      | Blocked w x \<Rightarrow> Blocked w x)"

definition consumer ::
  "env \<Rightarrow> aref \<Rightarrow> consume \<Rightarrow> qref \<Rightarrow> nat \<Rightarrow> world \<Rightarrow> (consumer_pc \<times> world) outcome" where
  "consumer env self function queue steps st =
     consumer_run env self function queue steps At_run_wait st"

subsection \<open>Metrics: \<open>__metric_emitter\<close>\<close>








section \<open>The director\<close>

definition create_actor :: "actor_class \<Rightarrow> string \<Rightarrow> bool \<Rightarrow> world \<Rightarrow> aref \<times> world" where
  "create_actor cls n blocking st =
     Actor_init cls n (d_size (director st)) (d_frequency (director st))
       (d_generate_metrics (director st)) blocking st"




definition register_metric_actor :: "actor_class \<Rightarrow> string \<Rightarrow> bool \<Rightarrow> world \<Rightarrow> aref \<times> world" where
  "register_metric_actor cls n blocking st =
     (case create_actor cls n blocking st of
        (a, st1) \<Rightarrow> (a, st1\<lparr>director := (director st1)\<lparr>metric_actor := a\<rparr>\<rparr>))"

definition register_failed_actor :: "actor_class \<Rightarrow> string \<Rightarrow> bool \<Rightarrow> world \<Rightarrow> aref \<times> world" where
  "register_failed_actor cls n blocking st =
     (case create_actor cls n blocking st of
        (a, st1) \<Rightarrow> (a, st1\<lparr>director := (director st1)\<lparr>failed_actor := a\<rparr>\<rparr>))"








text \<open>The interpreter before any object exists: every cell holds the same blank object.\<close>

definition blank_actor :: actor where
  "blank_actor =
     \<lparr>name = [], size_a = 0, frequency = 0,
      pool = \<lparr>pool_size = 0, inbound_queues = [], outbound_queues = [], error_queues = [],
              default_outbound_queues = []\<rparr>,
      logger = \<lparr>logs_queue = None, records = []\<rparr>, loop = False, threads = [],
      generate_metrics = False, run = False, block = False, blocking_consume = False,
      null_instance = False\<rparr>"

definition empty_world :: world where
  "empty_world =
     \<lparr>actor_at = (\<lambda>_. blank_actor),
      queue_at = (\<lambda>_. \<lparr>qname = [], max_size = 0, content = []\<rparr>),
      event_at = (\<lambda>_. \<lparr>event_id = [], data = PNone, service = [], header = []\<rparr>),
      next_actor = 0, next_queue = 0, next_event = 0,
      director = \<lparr>d_actors = [], d_size = 0, d_frequency = 0, d_generate_metrics = False,
                  metric_actor = 0, log_actor = 0, failed_actor = 0, running = False,
                  d_block = False\<rparr>,
      stdout = [], stderr = [], trace = [], time_reads = 0\<rparr>"

text \<open>Two plain actors, \<open>0\<close> and \<open>1\<close>, built by the base constructor.\<close>

definition example_pair :: world where
  "example_pair =
     snd (Actor_init (Actor_class ''Sink'') ''sink'' 0 1 True False
            (snd (Actor_init (Actor_class ''Source'') ''src'' 0 1 True False empty_world)))"

text \<open>The same pair after \<open>connect_queue("outbox", sink, "inbox")\<close> on the source.\<close>

definition example_wired :: world where
  "example_wired = state_of (connect_queue 0 ''outbox'' 1 ''inbox'' False True example_pair)"

text \<open>
  Modelled from the spec: \<open>create_event\<close> calls the event class's constructor, which is
  not part of the sources at hand; it makes a new event object with the given fields.
\<close>

definition create_event :: "event \<Rightarrow> world \<Rightarrow> eref \<times> world" where
  "create_event ev st =
     (next_event st,
      st\<lparr>event_at := (event_at st)(next_event st := ev), next_event := Suc (next_event st)\<rparr>)"

text \<open>The pair of actors with one event, \<open>0\<close>, whose data is \<open>{"n": 1}\<close>.\<close>

definition example_sending :: world where
  "example_sending =
     snd (create_event
            \<lparr>event_id = ''e1'', data = PDict [(''n'', PInt 1)], service = ''default'', header = []\<rparr>
            example_pair)"

text \<open>
  An environment without hooks, whose \<open>join\<close> returns at once, and three \<open>consume\<close>
  functions: one that meets a full queue \<open>3\<close>, one that raises a plain exception, and one
  that is interrupted from the keyboard.
\<close>

definition example_env :: env where
  "example_env =
     \<lparr>pre_hook = (\<lambda>_. None), post_hook = (\<lambda>_. None), threads_join = (\<lambda>_ st. Returned st),
      format_exc = (\<lambda>_. ''Traceback (most recent call last)''), time_at = (\<lambda>n. n),
      gethostname = ''host'', stats = (\<lambda>q. [(''size'', PInt (int (qsize q)))])\<rparr>"

definition congested_consume :: consume where
  "congested_consume e origin origin_queue st = Raised (QueueFull 3) (set_data e PNone st)"

definition failing_consume :: consume where
  "failing_consume e origin origin_queue st = Raised (Other_exception ''boom'') st"

definition interrupted_consume :: consume where
  "interrupted_consume e origin origin_queue st = Raised (Base_exception ''KeyboardInterrupt'') st"

text \<open>
  The same environment when every actor has a pre hook only, and when every actor has a post
  hook only; the hooks return at once.
\<close>

definition pre_hooked_env :: env where
  "pre_hooked_env = example_env\<lparr>pre_hook := (\<lambda>_. Some Returned)\<rparr>"

definition post_hooked_env :: env where
  "post_hooked_env = example_env\<lparr>post_hook := (\<lambda>_. Some Returned)\<rparr>"



text \<open>
  The pair after \<open>connect_error_queue("errors", sink, "inbox")\<close> on the source, and after a
  second \<open>connect_error_queue("errors", sink, "inbox2")\<close>.
\<close>

definition example_error_wired :: world where
  "example_error_wired = state_of (connect_queue 0 ''errors'' 1 ''inbox'' True True example_pair)"

definition example_error_rewired :: world where
  "example_error_rewired =
     state_of (connect_queue 0 ''errors'' 1 ''inbox2'' True True example_error_wired)"







section \<open>Properties\<close>

subsection \<open>Dictionaries and pools under the state updates\<close>

lemma dict_get_set [simp]:
  "dict_get (dict_set d k v) k' = (if k' = k then Some v else dict_get d k')"
  by (simp add: dict_get_def dict_set_def update_conv')

lemma dict_get_replace [simp]:
  "dict_get (replace_queue src dst d) k =
     map_option (\<lambda>q. if q = src then dst else q) (dict_get d k)"
proof (induction d)
  case Nil
  show ?case by (simp add: dict_get_def replace_queue_def)
next
  case (Cons x d)
  then show ?case by (simp add: dict_get_def replace_queue_def split: prod.splits)
qed

lemma pool_update_actor [simp]:
  "pool (actor_at (update_actor a f st) b) =
     (if b = a then pool (f (actor_at st a)) else pool (actor_at st b))"
  by (simp add: update_actor_def)

lemma pool_update_pool [simp]:
  "pool (actor_at (update_pool a f st) b) =
     (if b = a then f (pool (actor_at st a)) else pool (actor_at st b))"
  by (simp add: update_pool_def)

lemma pool_log_record [simp]: "pool (actor_at (log_record a l m st) b) = pool (actor_at st b)"
  by (simp add: log_record_def)

lemma pool_spawn [simp]: "pool (actor_at (spawn a w r st) b) = pool (actor_at st b)"
  by (simp add: spawn_def)

lemma pool_drain [simp]: "pool (actor_at (drain s d st) b) = pool (actor_at st b)"
  by (simp add: drain_def update_queue_def)

lemmas build_defs = example_pair_def Actor_init_def new_pool_def new_queue_def empty_world_def

lemmas sending_defs = example_sending_def create_event_def build_defs

subsection \<open>Wiring\<close>

lemma source_lookup_None:
  "fst (source_lookup p n) = None \<longleftrightarrow>
     dict_get (default_outbound_queues p) n = None \<and> dict_get (outbound_queues p) n = None"
  by (simp add: source_lookup_def split: option.splits)

lemma connect_queue_fresh:
  assumes "dict_get (default_outbound_queues (pool (actor_at st S))) s_name = None"
    and "dict_get (outbound_queues (pool (actor_at st S))) s_name = None"
    and "dict_get (inbound_queues (pool (actor_at st D))) d_name = None"
  shows "\<exists>st'. connect_queue S s_name D d_name False chk st = Returned st'
           \<and> dict_get (outbound_queues (pool (actor_at st' S))) s_name = Some (next_queue st)
           \<and> dict_get (inbound_queues (pool (actor_at st' D))) d_name = Some (next_queue st)"
  using assms
  by (simp add: connect_queue_def source_lookup_def register_consumer_def add_outbound_queue_def
      add_inbound_queue_def queue_or_new_def new_queue_def Let_def)

lemma connect_queue_source_present:
  assumes "connect_queue S s D d False chk st = Returned st1"
  shows "fst (source_lookup (pool (actor_at st1 S)) s) \<noteq> None"
  using assms
  by (auto simp: connect_queue_def source_lookup_def register_consumer_def add_outbound_queue_def
      add_inbound_queue_def queue_or_new_def new_queue_def move_queue_def Let_def
      split: option.splits if_splits scope.splits)

lemma connect_queue_checked_source:
  assumes "fst (source_lookup (pool (actor_at st S)) s) \<noteq> None"
  shows "connect_queue S s D d eq True st = Raised (QueueConnected (already_connected s)) st"
  using assms by (auto simp: connect_queue_def split: prod.splits)

lemma example_pair_connects:
  "connect_queue 0 ''outbox'' 1 ''inbox'' False True example_pair = Returned example_wired"
proof -
  obtain st' where "connect_queue 0 ''outbox'' 1 ''inbox'' False True example_pair = Returned st'"
    using connect_queue_fresh [of example_pair 0 "''outbox''" 1 "''inbox''" True]
    by (auto simp: build_defs dict_get_def)
  then show ?thesis by (simp add: example_wired_def)
qed

text \<open>
  C1. If the producer \<open>S\<close> has neither a reserved nor a plain outbound queue named
  \<open>s_name\<close> and the consumer \<open>D\<close> has no inbound queue named \<open>d_name\<close>, then
  \<open>S.connect_queue(s_name, D, d_name)\<close> returns, and the queue stored in \<open>S\<close>'s outbound
  map under \<open>s_name\<close> is the very queue stored in \<open>D\<close>'s inbound map under \<open>d_name\<close>:
  both entries hold the same reference, that of the queue just created.
\<close>

theorem connect_queue_shares_queue:
  assumes "dict_get (default_outbound_queues (pool (actor_at st S))) s_name = None"
    and "dict_get (outbound_queues (pool (actor_at st S))) s_name = None"
    and "dict_get (inbound_queues (pool (actor_at st D))) d_name = None"
  shows "\<exists>st' q. connect_queue S s_name D d_name False chk st = Returned st'
           \<and> q = next_queue st
           \<and> dict_get (outbound_queues (pool (actor_at st' S))) s_name = Some q
           \<and> dict_get (inbound_queues (pool (actor_at st' D))) d_name = Some q"
  using connect_queue_fresh [OF assms] by simp

theorem connect_queue_shares_queue_witness:
  "\<exists>st' q. connect_queue 0 ''outbox'' 1 ''inbox'' False True example_pair = Returned st'
           \<and> q = next_queue example_pair
           \<and> dict_get (outbound_queues (pool (actor_at st' 0))) ''outbox'' = Some q
           \<and> dict_get (inbound_queues (pool (actor_at st' 1))) ''inbox'' = Some q"
  using connect_queue_shares_queue [of example_pair 0 "''outbox''" 1 "''inbox''" True]
  by (simp add: build_defs dict_get_def)

lemma connect_queue_checked_destination:
  assumes "dict_get (inbound_queues (pool (actor_at st D))) d = Some dq"
    and "fst (source_lookup (pool (actor_at st S)) s) = None"
  shows "connect_queue S s D d eq True st = Raised (QueueConnected (already_connected d)) st"
  using assms by (cases "source_lookup (pool (actor_at st S)) s") (simp add: connect_queue_def)

lemma connect_queue_adopts:
  assumes "dict_get (inbound_queues (pool (actor_at st D))) d = Some dq"
    and "fst (source_lookup (pool (actor_at st S)) s) = None"
  shows "\<exists>st'. connect_queue S s D d eq False st = Returned st'
           \<and> dict_get ((if eq then error_queues else outbound_queues) (pool (actor_at st' S))) s = Some dq
           \<and> dict_get (inbound_queues (pool (actor_at st' D))) d = Some dq"
  using assms
  by (cases "source_lookup (pool (actor_at st S)) s")
     (auto simp add: connect_queue_def add_outbound_queue_def add_error_queue_def queue_or_new_def Let_def)

text \<open>
  C10. With \<open>check_existing=True\<close>, \<open>connect_queue\<close> raises \<open>QueueConnected\<close>
  whenever the destination already has an inbound queue under the destination name. When the
  producer has no queue under the source name, the message names the destination queue, a
  call that returns must have had \<open>check_existing=False\<close>, and with
  \<open>check_existing=False\<close> the producer adopts the destination's queue under the source
  name (in its outbound map, or in its error map for an error queue).
\<close>

theorem connect_queue_destination_exists:
  assumes "dict_get (inbound_queues (pool (actor_at st D))) d = Some dq"
  shows "(\<exists>m. connect_queue S s D d eq True st = Raised (QueueConnected m) st)
       \<and> (fst (source_lookup (pool (actor_at st S)) s) = None \<longrightarrow>
            connect_queue S s D d eq True st = Raised (QueueConnected (already_connected d)) st
          \<and> (\<forall>chk st'. connect_queue S s D d eq chk st = Returned st' \<longrightarrow> \<not> chk)
          \<and> (\<exists>st'. connect_queue S s D d eq False st = Returned st'
                \<and> dict_get ((if eq then error_queues else outbound_queues) (pool (actor_at st' S))) s = Some dq
                \<and> dict_get (inbound_queues (pool (actor_at st' D))) d = Some dq))"
proof (cases "fst (source_lookup (pool (actor_at st S)) s) = None")
  case True
  note raised = connect_queue_checked_destination [OF assms True, of eq]
  have "\<not> chk" if "connect_queue S s D d eq chk st = Returned st'" for chk st'
    using that raised by (cases chk) simp_all
  with True raised connect_queue_adopts [OF assms True, of eq] show ?thesis by blast
next
  case False
  from connect_queue_checked_source [OF False] show ?thesis using False by blast
qed

lemma example_wired_inbox:
  "dict_get (inbound_queues (pool (actor_at example_wired 1))) ''inbox'' = Some 6"
  using connect_queue_fresh [of example_pair 0 "''outbox''" 1 "''inbox''" True] example_pair_connects
  by (simp add: build_defs dict_get_def)

lemma example_wired_no_other:
  "fst (source_lookup (pool (actor_at example_wired 0)) ''other'') = None"
  by (simp add: example_wired_def connect_queue_def source_lookup_def register_consumer_def
      add_outbound_queue_def add_inbound_queue_def queue_or_new_def Let_def build_defs dict_get_def
      update_pool_def update_actor_def spawn_def log_record_def dict_set_def)

theorem connect_queue_destination_exists_witness:
  "dict_get (inbound_queues (pool (actor_at example_wired 1))) ''inbox'' = Some 6
   \<and> connect_queue 0 ''other'' 1 ''inbox'' False True example_wired
       = Raised (QueueConnected ''Queue inbox is already connected'') example_wired
   \<and> (\<exists>st'. connect_queue 0 ''other'' 1 ''inbox'' False False example_wired = Returned st'
          \<and> dict_get (outbound_queues (pool (actor_at st' 0))) ''other'' = Some 6
          \<and> dict_get (inbound_queues (pool (actor_at st' 1))) ''inbox'' = Some 6)"
  using connect_queue_destination_exists [OF example_wired_inbox, of 0 "''other''" False]
    example_wired_inbox example_wired_no_other
  by (simp add: already_connected_def)

lemma connect_queue_destination_present:
  assumes "connect_queue S s D d eq chk st = Returned st1"
  shows "dict_get (inbound_queues (pool (actor_at st1 D))) d \<noteq> None"
proof (cases "source_lookup (pool (actor_at st S)) s")
  case (Pair sq sc)
  show ?thesis
  proof (cases "dict_get (inbound_queues (pool (actor_at st D))) d")
    case None
    with Pair assms show ?thesis
      by (cases sq; cases eq)
         (auto simp: connect_queue_def register_consumer_def add_outbound_queue_def
            add_error_queue_def add_inbound_queue_def queue_or_new_def new_queue_def Let_def
            split: if_splits)
  next
    case (Some dq)
    with Pair assms show ?thesis
      by (cases sq; cases eq; cases sc)
         (auto simp: connect_queue_def add_outbound_queue_def add_error_queue_def
            queue_or_new_def move_queue_def Let_def split: if_splits)
  qed
qed

lemma connect_queue_checked:
  assumes "dict_get (inbound_queues (pool (actor_at st D))) d \<noteq> None"
  shows "\<exists>m. (m = already_connected s \<or> m = already_connected d)
           \<and> connect_queue S s D d eq True st = Raised (QueueConnected m) st"
proof (cases "fst (source_lookup (pool (actor_at st S)) s) = None")
  case True
  from assms obtain dq where "dict_get (inbound_queues (pool (actor_at st D))) d = Some dq"
    by blast
  from connect_queue_checked_destination [OF this True] show ?thesis by blast
next
  case False
  from connect_queue_checked_source [OF False] show ?thesis by blast
qed

text \<open>
  C3 (amended). Once \<open>connect_queue\<close> has wired an edge, as a plain or as an error queue,
  a second \<open>connect_queue\<close> for the same edge (the same source queue name, destination
  actor and destination queue name) with \<open>check_existing=True\<close> raises
  \<open>QueueConnected\<close>, naming the source queue or the destination queue, and the state at the
  raise is the state before the call: no pool of any actor has changed. When the first call
  wired a plain (non-error) queue, a second call for the same source name raises in this way
  whatever its destination.
\<close>

theorem connect_queue_same_edge_twice:
  assumes "connect_queue S s D d eq chk st = Returned st1"
  shows "(\<exists>m. (m = already_connected s \<or> m = already_connected d)
            \<and> connect_queue S s D d eq' True st1 = Raised (QueueConnected m) st1)
       \<and> (\<not> eq \<longrightarrow>
            connect_queue S s D' d' eq' True st1
              = Raised (QueueConnected (already_connected s)) st1)"
proof (intro conjI impI)
  from connect_queue_destination_present [OF assms]
  show "\<exists>m. (m = already_connected s \<or> m = already_connected d)
            \<and> connect_queue S s D d eq' True st1 = Raised (QueueConnected m) st1"
    by (rule connect_queue_checked)
next
  assume "\<not> eq"
  with assms have "connect_queue S s D d False chk st = Returned st1" by simp
  from connect_queue_source_present [OF this]
  show "connect_queue S s D' d' eq' True st1 = Raised (QueueConnected (already_connected s)) st1"
    by (rule connect_queue_checked_source)
qed

lemmas wiring_defs = connect_queue_def source_lookup_def register_consumer_def
  add_outbound_queue_def add_error_queue_def add_inbound_queue_def queue_or_new_def Let_def
  update_pool_def update_actor_def spawn_def log_record_def dict_set_def dict_get_def

lemma example_error_connects:
  "connect_queue 0 ''errors'' 1 ''inbox'' True True example_pair = Returned example_error_wired"
  by (simp add: example_error_wired_def wiring_defs build_defs)

lemma example_error_wired_pools:
  "dict_get (default_outbound_queues (pool (actor_at example_error_wired 0))) ''errors'' = None"
  "dict_get (outbound_queues (pool (actor_at example_error_wired 0))) ''errors'' = None"
  "dict_get (error_queues (pool (actor_at example_error_wired 0))) ''errors'' = Some 6"
  "dict_get (inbound_queues (pool (actor_at example_error_wired 1))) ''inbox'' = Some 6"
  "dict_get (inbound_queues (pool (actor_at example_error_wired 1))) ''inbox2'' = None"
  "next_queue example_error_wired = 7"
  by (simp_all add: example_error_wired_def wiring_defs build_defs)

theorem connect_queue_same_edge_twice_witness:
  "connect_queue 0 ''outbox'' 1 ''inbox'' False True example_pair = Returned example_wired
   \<and> connect_queue 0 ''outbox'' 1 ''inbox'' False True example_wired
       = Raised (QueueConnected ''Queue outbox is already connected'') example_wired
   \<and> connect_queue 0 ''outbox'' 1 ''inbox2'' True True example_wired
       = Raised (QueueConnected ''Queue outbox is already connected'') example_wired
   \<and> connect_queue 0 ''errors'' 1 ''inbox'' True True example_pair = Returned example_error_wired
   \<and> connect_queue 0 ''errors'' 1 ''inbox'' True True example_error_wired
       = Raised (QueueConnected ''Queue inbox is already connected'') example_error_wired"
proof -
  note a = connect_queue_same_edge_twice [OF example_pair_connects, of False 1 "''inbox''"]
  note b = connect_queue_same_edge_twice [OF example_pair_connects, of True 1 "''inbox2''"]
  note c = connect_queue_same_edge_twice [OF example_error_connects, of True 1 "''inbox''"]
  have src: "fst (source_lookup (pool (actor_at example_error_wired 0)) ''errors'') = None"
    using example_error_wired_pools by (simp add: source_lookup_None)
  have "connect_queue 0 ''errors'' 1 ''inbox'' True True example_error_wired
       \<noteq> Raised (QueueConnected (already_connected ''errors'')) example_error_wired"
    using connect_queue_checked_destination [OF example_error_wired_pools(4) src, of True]
    by (simp add: already_connected_def)
  with c have "connect_queue 0 ''errors'' 1 ''inbox'' True True example_error_wired
       = Raised (QueueConnected (already_connected ''inbox'')) example_error_wired"
    by auto
  with a b example_pair_connects example_error_connects show ?thesis
    by (simp add: already_connected_def)
qed

theorem connect_error_queue_twice_counterexample:
  "connect_queue 0 ''errors'' 1 ''inbox'' True True example_pair = Returned example_error_wired
   \<and> connect_queue 0 ''errors'' 1 ''inbox2'' True True example_error_wired
       = Returned example_error_rewired
   \<and> dict_get (error_queues (pool (actor_at example_error_wired 0))) ''errors'' = Some 6
   \<and> dict_get (error_queues (pool (actor_at example_error_rewired 0))) ''errors'' = Some 7
   \<and> dict_get (inbound_queues (pool (actor_at example_error_wired 1))) ''inbox2'' = None
   \<and> dict_get (inbound_queues (pool (actor_at example_error_rewired 1))) ''inbox2'' = Some 7"
proof -
  have src: "fst (source_lookup (pool (actor_at example_error_wired 0)) ''errors'') = None"
    using example_error_wired_pools by (simp add: source_lookup_None)
  have run: "connect_queue 0 ''errors'' 1 ''inbox2'' True True example_error_wired
       = Returned example_error_rewired"
    using src example_error_wired_pools(5)
    by (cases "source_lookup (pool (actor_at example_error_wired 0)) ''errors''")
       (simp add: example_error_rewired_def connect_queue_def Let_def)
  have after: "dict_get (error_queues (pool (actor_at example_error_rewired 0))) ''errors'' = Some 7"
    "dict_get (inbound_queues (pool (actor_at example_error_rewired 1))) ''inbox2'' = Some 7"
    using src example_error_wired_pools(5,6)
    by (cases "source_lookup (pool (actor_at example_error_wired 0)) ''errors''";
        simp add: example_error_rewired_def connect_queue_def register_consumer_def
          add_error_queue_def add_inbound_queue_def queue_or_new_def new_queue_def Let_def)+
  from example_error_connects run after example_error_wired_pools show ?thesis by simp
qed

subsection \<open>Sending\<close>

lemma loop_submit_Nil [simp]: "loop_submit self e [] st = Returned st"
  by (simp add: loop_submit_def)

lemma given_or_falsy:
  "queues = None \<or> queues = Some [] \<Longrightarrow> given_or queues dflt = dflt"
  by (auto simp: given_or_def)

text \<open>
  C4 (amended). A send without any target does not raise: \<open>send_error\<close> with no
  \<open>queue\<close>, no (or empty) \<open>queues\<close> and an empty error-queue map returns and leaves the
  state as it was, and so does \<open>send_event\<close> with no \<open>queue\<close>, no (or empty)
  \<open>queues\<close> and an empty outbound map. The event is dropped silently.
\<close>

theorem send_without_target_returns:
  assumes "queues = None \<or> queues = Some []"
  shows "(error_queues (pool (actor_at st self)) = [] \<longrightarrow>
            send_error self e None queues st = Returned st)
       \<and> (outbound_queues (pool (actor_at st self)) = [] \<longrightarrow>
            send_event self e None queues st = Returned st)"
  using given_or_falsy [OF assms]
  by (simp add: send_error_def send_event_def dict_values_def)

lemma example_sending_pools:
  "error_queues (pool (actor_at example_sending 0)) = []"
  "outbound_queues (pool (actor_at example_sending 0)) = []"
  by (simp_all add: example_sending_def create_event_def build_defs)

theorem send_without_target_returns_witness:
  "error_queues (pool (actor_at example_sending 0)) = []
   \<and> outbound_queues (pool (actor_at example_sending 0)) = []
   \<and> send_error 0 0 None (Some []) example_sending = Returned example_sending
   \<and> send_event 0 0 None (Some []) example_sending = Returned example_sending"
  using send_without_target_returns [of "Some []" example_sending 0 0] example_sending_pools
  by simp

theorem send_error_no_target_counterexample:
  "send_error 0 0 None None example_sending = Returned example_sending
   \<and> send_error 0 0 None None example_sending \<noteq> Raised NoConnectedQueues example_sending
   \<and> send_event 0 0 None None example_sending = Returned example_sending
   \<and> send_event 0 0 None None example_sending \<noteq> Raised NoConnectedQueues example_sending"
  by (simp add: send_error_def send_event_def given_or_def dict_values_def example_sending_pools)














subsection \<open>Consuming\<close>

lemma do_consume_QueueFull:
  assumes "function e (qname (queue_at st queue)) queue st = Raised (QueueFull r) s"
  shows "do_consume env self function e queue d st
           = Blocked (Wait_until_free r)
               (update_queue queue (\<lambda>q. rescue q (Event_obj e)) (set_data e d s))"
  using assms by (simp add: do_consume_def)

lemma do_consume_Exception:
  assumes "function e (qname (queue_at st queue)) queue st = Raised err s"
    and "is_Exception err" and "\<forall>r. err \<noteq> QueueFull r"
  shows "do_consume env self function e queue d st
           = Returned (log_record self Error (format_exc env err)
                         (s\<lparr>stdout := stdout s @ [format_exc env err]\<rparr>))"
  using assms by (cases err) (simp_all add: do_consume_def)

lemma do_consume_Base_exception:
  assumes "function e (qname (queue_at st queue)) queue st = Raised err s"
    and "\<not> is_Exception err"
  shows "do_consume env self function e queue d st = Raised err s"
  using assms by (cases err) (simp_all add: do_consume_def)

text \<open>
  C5 (amended). If the user's \<open>consume\<close> raises \<open>QueueFull\<close>, then \<open>__do_consume\<close> sets
  the event's \<open>data\<close> to the snapshot it was given, reinserts the event at the head of the
  queue it came from (\<open>rescue\<close>), prints and logs nothing, and suspends on the error's
  \<open>wait_until_free\<close>. If \<open>consume\<close> raises any other instance of \<open>Exception\<close>, the
  traceback is printed to standard output (standard error is untouched) and logged through the
  actor's logger as an error, no queue and no event changes (the event is not put back), no
  worker is added, and the call returns, so the worker goes on. The snapshot is the event's
  \<open>data\<close> as the consumer found it at dequeue, before \<open>consume\<close> ran, both when
  \<open>__do_consume\<close> is called in line and when it is spawned.
\<close>

theorem do_consume_failures:
  "(function e (qname (queue_at st queue)) queue st = Raised (QueueFull r) s \<longrightarrow>
      (\<exists>s'. do_consume env self function e queue d st = Blocked (Wait_until_free r) s'
         \<and> data (event_at s' e) = d
         \<and> content (queue_at s' queue) = Event_obj e # content (queue_at s queue)
         \<and> (\<forall>q. q \<noteq> queue \<longrightarrow> queue_at s' q = queue_at s q)
         \<and> stdout s' = stdout s \<and> stderr s' = stderr s
         \<and> logger (actor_at s' self) = logger (actor_at s self)))
   \<and> (function e (qname (queue_at st queue)) queue st = Raised err s
        \<and> is_Exception err \<and> (\<forall>r. err \<noteq> QueueFull r) \<longrightarrow>
      (\<exists>s'. do_consume env self function e queue d st = Returned s'
         \<and> stdout s' = stdout s @ [format_exc env err]
         \<and> stderr s' = stderr s
         \<and> records (logger (actor_at s' self))
             = records (logger (actor_at s self)) @ [(Error, format_exc env err)]
         \<and> queue_at s' = queue_at s \<and> event_at s' = event_at s
         \<and> threads (actor_at s' self) = threads (actor_at s self)))
   \<and> dispatch env self function queue True pc (Event_obj e) st
        = with_pc pc (do_consume env self function e queue (data (event_at st e)) st)
   \<and> dispatch env self function queue False pc (Event_obj e) st
        = Returned (pc, spawn self (Do_consume e queue (data (event_at st e))) False st)"
proof (intro conjI impI)
  assume "function e (qname (queue_at st queue)) queue st = Raised (QueueFull r) s"
  then have "do_consume env self function e queue d st
           = Blocked (Wait_until_free r)
               (update_queue queue (\<lambda>q. rescue q (Event_obj e)) (set_data e d s))"
    by (rule do_consume_QueueFull)
  then show "\<exists>s'. do_consume env self function e queue d st = Blocked (Wait_until_free r) s'
         \<and> data (event_at s' e) = d
         \<and> content (queue_at s' queue) = Event_obj e # content (queue_at s queue)
         \<and> (\<forall>q. q \<noteq> queue \<longrightarrow> queue_at s' q = queue_at s q)
         \<and> stdout s' = stdout s \<and> stderr s' = stderr s
         \<and> logger (actor_at s' self) = logger (actor_at s self)"
    by (simp add: update_queue_def set_data_def rescue_def)
next
  assume "function e (qname (queue_at st queue)) queue st = Raised err s
        \<and> is_Exception err \<and> (\<forall>r. err \<noteq> QueueFull r)"
  then have "do_consume env self function e queue d st
           = Returned (log_record self Error (format_exc env err)
                         (s\<lparr>stdout := stdout s @ [format_exc env err]\<rparr>))"
    by (intro do_consume_Exception) simp_all
  then show "\<exists>s'. do_consume env self function e queue d st = Returned s'
         \<and> stdout s' = stdout s @ [format_exc env err]
         \<and> stderr s' = stderr s
         \<and> records (logger (actor_at s' self))
             = records (logger (actor_at s self)) @ [(Error, format_exc env err)]
         \<and> queue_at s' = queue_at s \<and> event_at s' = event_at s
         \<and> threads (actor_at s' self) = threads (actor_at s self)"
    by (simp add: log_record_def update_actor_def)
next
  show "dispatch env self function queue True pc (Event_obj e) st
        = with_pc pc (do_consume env self function e queue (data (event_at st e)) st)"
    by (simp add: dispatch_def)
  show "dispatch env self function queue False pc (Event_obj e) st
        = Returned (pc, spawn self (Do_consume e queue (data (event_at st e))) False st)"
    by (simp add: dispatch_def)
qed

theorem do_consume_failures_witness:
  "(\<exists>s'. do_consume example_env 1 congested_consume 0 3 (PDict [(''n'', PInt 1)]) example_sending
           = Blocked (Wait_until_free 3) s'
        \<and> data (event_at s' 0) = PDict [(''n'', PInt 1)]
        \<and> content (queue_at s' 3) = [Event_obj 0]
        \<and> stdout s' = [])
   \<and> (\<exists>s'. do_consume example_env 1 failing_consume 0 3 (PDict [(''n'', PInt 1)]) example_sending
           = Returned s'
        \<and> stdout s' = [''Traceback (most recent call last)'']
        \<and> records (logger (actor_at s' 1)) = [(Error, ''Traceback (most recent call last)'')]
        \<and> content (queue_at s' 3) = [])"
proof -
  have a: "congested_consume 0 (qname (queue_at example_sending 3)) 3 example_sending
             = Raised (QueueFull 3) (set_data 0 PNone example_sending)"
    by (simp add: congested_consume_def)
  have b: "failing_consume 0 (qname (queue_at example_sending 3)) 3 example_sending
             = Raised (Other_exception ''boom'') example_sending
           \<and> is_Exception (Other_exception ''boom'') \<and> (\<forall>r. Other_exception ''boom'' \<noteq> QueueFull r)"
    by (simp add: failing_consume_def)
  have f: "content (queue_at example_sending 3) = []" "stdout example_sending = []"
    "records (logger (actor_at example_sending 1)) = []"
    by (simp_all add: sending_defs)
  have f': "content (queue_at (set_data 0 PNone example_sending) 3) = []"
    "stdout (set_data 0 PNone example_sending) = []"
    using f by (simp_all add: set_data_def)
  note t = do_consume_failures [of congested_consume 0 example_sending 3 3
      "set_data 0 PNone example_sending" example_env 1 "PDict [(''n'', PInt 1)]"
      "Other_exception ''boom''" In_loop]
  note u = do_consume_failures [of failing_consume 0 example_sending 3 3
      example_sending example_env 1 "PDict [(''n'', PInt 1)]"
      "Other_exception ''boom''" In_loop]
  from t a f'
  have one: "\<exists>s'. do_consume example_env 1 congested_consume 0 3 (PDict [(''n'', PInt 1)]) example_sending
           = Blocked (Wait_until_free 3) s'
        \<and> data (event_at s' 0) = PDict [(''n'', PInt 1)]
        \<and> content (queue_at s' 3) = [Event_obj 0]
        \<and> stdout s' = []"
    by auto
  from u b f
  have two: "\<exists>s'. do_consume example_env 1 failing_consume 0 3 (PDict [(''n'', PInt 1)]) example_sending
           = Returned s'
        \<and> stdout s' = [''Traceback (most recent call last)'']
        \<and> records (logger (actor_at s' 1)) = [(Error, ''Traceback (most recent call last)'')]
        \<and> content (queue_at s' 3) = []"
    by (auto simp: example_env_def)
  from one two show ?thesis by blast
qed

theorem do_consume_stderr_counterexample:
  "stderr (state_of (do_consume example_env 1 failing_consume 0 3 (PDict [(''n'', PInt 1)])
                       example_sending)) = []
   \<and> stdout (state_of (do_consume example_env 1 failing_consume 0 3 (PDict [(''n'', PInt 1)])
                         example_sending)) = [''Traceback (most recent call last)'']
   \<and> do_consume example_env 1 interrupted_consume 0 3 (PDict [(''n'', PInt 1)]) example_sending
       = Raised (Base_exception ''KeyboardInterrupt'') example_sending"
  by (simp add: do_consume_def failing_consume_def interrupted_consume_def example_env_def
      log_record_def update_actor_def sending_defs)

subsection \<open>Lifecycle\<close>

lemma run_log_record [simp]: "run (actor_at (log_record a l m st) b) = run (actor_at st b)"
  by (simp add: log_record_def update_actor_def)

lemma run_spawn [simp]: "run (actor_at (spawn a w r st) b) = run (actor_at st b)"
  by (simp add: spawn_def update_actor_def)

lemma trace_log_record [simp]: "trace (log_record a l m st) = trace st"
  by (simp add: log_record_def update_actor_def)

lemma trace_spawn [simp]: "trace (spawn a w r st) = trace st"
  by (simp add: spawn_def update_actor_def)

lemma trace_update_actor [simp]: "trace (update_actor a f st) = trace st"
  by (simp add: update_actor_def)

lemma consumer_waits:
  assumes "\<not> run (actor_at s self)" and "0 < steps"
  shows "consumer env self function queue steps s = Blocked (Wait_run self) (At_run_wait, s)"
proof -
  from assms(2) obtain n where "steps = Suc n" by (cases steps) simp_all
  with assms(1) show ?thesis by (simp add: consumer_def)
qed

lemma Actor_start_with_hook:
  assumes "pre_hook env self = Some h"
    and "dict_get (default_outbound_queues (pool (actor_at st self))) ''logs'' = Some lq"
  shows "\<exists>s0. run (actor_at s0 self) = run (actor_at st self)
           \<and> queue_at s0 = queue_at st
           \<and> trace s0 = trace st @ [Call_pre_hook self]
           \<and> Actor_start env self st =
               and_then (h s0)
                 (\<lambda>s3. Returned
                    (log_record self Debug
                       (started_message (size_a (actor_at s3 self)) (frequency (actor_at s3 self)))
                       (set_gate (Run_gate self) s3)))"
proof -
  define st1 where
    "st1 = update_actor self (\<lambda>x. x\<lparr>logger := (logger x)\<lparr>logs_queue := Some lq\<rparr>\<rparr>) st"
  define st2 where
    "st2 = (if generate_metrics (actor_at st1 self) then spawn self Metric_emitter True st1 else st1)"
  define s0 where
    "s0 = (log_record self Debug ''pre_hook() found, executing'' st2)
            \<lparr>trace := trace st @ [Call_pre_hook self]\<rparr>"
  have st1: "run (actor_at st1 self) = run (actor_at st self)" "trace st1 = trace st"
    "queue_at st1 = queue_at st"
    by (simp_all add: st1_def update_actor_def)
  have st2: "run (actor_at st2 self) = run (actor_at st self)" "trace st2 = trace st"
    "queue_at st2 = queue_at st"
    using st1 by (simp_all add: st2_def spawn_def update_actor_def)
  have "run (actor_at s0 self) = run (actor_at st self)" "queue_at s0 = queue_at st"
    "trace s0 = trace st @ [Call_pre_hook self]"
    using st2 by (simp_all add: s0_def log_record_def update_actor_def)
  moreover have "Actor_start env self st =
               and_then (h s0)
                 (\<lambda>s3. Returned
                    (log_record self Debug
                       (started_message (size_a (actor_at s3 self)) (frequency (actor_at s3 self)))
                       (set_gate (Run_gate self) s3)))"
    using assms st2 by (simp add: Actor_start_def traced_def s0_def st2_def st1_def Let_def)
  ultimately show ?thesis by blast
qed

lemma Actor_stop_with_hook:
  assumes "post_hook env self = Some g"
  shows "\<exists>s0. \<not> loop (actor_at s0 self) \<and> block (actor_at s0 self)
           \<and> trace s0 = trace st @ [Set_gate (Block_gate self), Join_pool self]
           \<and> Actor_stop env self st =
               and_then (threads_join env self s0)
                 (\<lambda>s3. g ((log_record self Debug ''post_hook() found, executing'' s3)
                            \<lparr>trace := trace s3 @ [Call_post_hook self]\<rparr>))"
proof -
  define s0 where
    "s0 = (set_gate (Block_gate self) (update_actor self (\<lambda>x. x\<lparr>loop := False\<rparr>) st))
            \<lparr>trace := trace st @ [Set_gate (Block_gate self), Join_pool self]\<rparr>"
  have "\<not> loop (actor_at s0 self)" "block (actor_at s0 self)"
    "trace s0 = trace st @ [Set_gate (Block_gate self), Join_pool self]"
    by (simp_all add: s0_def update_actor_def)
  moreover have "Actor_stop env self st =
               and_then (threads_join env self s0)
                 (\<lambda>s3. g ((log_record self Debug ''post_hook() found, executing'' s3)
                            \<lparr>trace := trace s3 @ [Call_post_hook self]\<rparr>))"
    using assms by (simp add: Actor_stop_def s0_def Let_def traced_def)
  ultimately show ?thesis by blast
qed

text \<open>
  C6. For an actor with a \<open>pre_hook\<close> (whether or not it has a \<open>post_hook\<close>),
  \<open>start()\<close> calls the hook in a state \<open>s0\<close> where the started gate and the queues are
  as they were before \<open>start()\<close> and the call is the last entry of the trace. If the hook
  returns \<open>s1\<close>, \<open>start()\<close> then sets the gate: the gate's entry follows everything the
  trace held when the hook returned. If the hook raises or suspends, so does \<open>start()\<close>, in
  the state the hook left: \<open>start()\<close> has not set the gate. While the gate is clear, a
  consumer greenlet run from its first statement, for any number of steps, stays suspended on
  the gate and leaves the state as it is: it dequeues no event. For an actor with a
  \<open>post_hook\<close> (whether or not it has a \<open>pre_hook\<close>), \<open>stop()\<close> clears the loop flag,
  sets the block gate and calls the pool's \<open>join\<close>. If the join returns \<open>s1\<close>, the hook
  is called on the queues, events and workers of \<open>s1\<close>, with its call entered in the trace
  after everything the trace held when the join returned, and \<open>stop()\<close> ends as the hook
  does. If the join raises or suspends, so does \<open>stop()\<close>, and the hook is not called.
\<close>

theorem hooks_order:
  "(pre_hook env self = Some h
      \<and> dict_get (default_outbound_queues (pool (actor_at st self))) ''logs'' = Some lq \<longrightarrow>
      (\<exists>s0. run (actor_at s0 self) = run (actor_at st self)
         \<and> queue_at s0 = queue_at st
         \<and> trace s0 = trace st @ [Call_pre_hook self]
         \<and> (case h s0 of
               Returned s1 \<Rightarrow>
                 (\<exists>s2. Actor_start env self st = Returned s2 \<and> run (actor_at s2 self)
                    \<and> trace s2 = trace s1 @ [Set_gate (Run_gate self)]
                    \<and> queue_at s2 = queue_at s1)
             | Raised err s1 \<Rightarrow> Actor_start env self st = Raised err s1
             | Blocked w s1 \<Rightarrow> Actor_start env self st = Blocked w s1)))
   \<and> (\<forall>s function queue steps. \<not> run (actor_at s self) \<and> 0 < steps \<longrightarrow>
         consumer env self function queue steps s = Blocked (Wait_run self) (At_run_wait, s))
   \<and> (post_hook env self = Some g \<longrightarrow>
      (\<exists>s0. \<not> loop (actor_at s0 self) \<and> block (actor_at s0 self)
         \<and> trace s0 = trace st @ [Set_gate (Block_gate self), Join_pool self]
         \<and> (case threads_join env self s0 of
               Returned s1 \<Rightarrow>
                 (\<exists>s2. trace s2 = trace s1 @ [Call_post_hook self]
                    \<and> queue_at s2 = queue_at s1 \<and> event_at s2 = event_at s1
                    \<and> (\<forall>a. threads (actor_at s2 a) = threads (actor_at s1 a))
                    \<and> Actor_stop env self st = g s2)
             | Raised err s1 \<Rightarrow> Actor_stop env self st = Raised err s1
             | Blocked w s1 \<Rightarrow> Actor_stop env self st = Blocked w s1)))"
proof (intro conjI impI allI)
  assume "pre_hook env self = Some h
      \<and> dict_get (default_outbound_queues (pool (actor_at st self))) ''logs'' = Some lq"
  then have p: "pre_hook env self = Some h"
    "dict_get (default_outbound_queues (pool (actor_at st self))) ''logs'' = Some lq"
    by simp_all
  from Actor_start_with_hook [OF p] obtain s0 where
    s0: "run (actor_at s0 self) = run (actor_at st self)" "queue_at s0 = queue_at st"
      "trace s0 = trace st @ [Call_pre_hook self]"
    and eq: "Actor_start env self st =
               and_then (h s0)
                 (\<lambda>s3. Returned
                    (log_record self Debug
                       (started_message (size_a (actor_at s3 self)) (frequency (actor_at s3 self)))
                       (set_gate (Run_gate self) s3)))"
    by blast
  have "case h s0 of
               Returned s1 \<Rightarrow>
                 (\<exists>s2. Actor_start env self st = Returned s2 \<and> run (actor_at s2 self)
                    \<and> trace s2 = trace s1 @ [Set_gate (Run_gate self)]
                    \<and> queue_at s2 = queue_at s1)
             | Raised err s1 \<Rightarrow> Actor_start env self st = Raised err s1
             | Blocked w s1 \<Rightarrow> Actor_start env self st = Blocked w s1"
    by (cases "h s0") (simp_all add: eq update_actor_def log_record_def)
  with s0 show "\<exists>s0. run (actor_at s0 self) = run (actor_at st self)
         \<and> queue_at s0 = queue_at st
         \<and> trace s0 = trace st @ [Call_pre_hook self]
         \<and> (case h s0 of
               Returned s1 \<Rightarrow>
                 (\<exists>s2. Actor_start env self st = Returned s2 \<and> run (actor_at s2 self)
                    \<and> trace s2 = trace s1 @ [Set_gate (Run_gate self)]
                    \<and> queue_at s2 = queue_at s1)
             | Raised err s1 \<Rightarrow> Actor_start env self st = Raised err s1
             | Blocked w s1 \<Rightarrow> Actor_start env self st = Blocked w s1)"
    by blast
next
  fix s :: world and fn :: consume and queue :: qref and steps :: nat
  assume "\<not> run (actor_at s self) \<and> 0 < steps"
  then show "consumer env self fn queue steps s = Blocked (Wait_run self) (At_run_wait, s)"
    by (intro consumer_waits) simp_all
next
  assume g: "post_hook env self = Some g"
  from Actor_stop_with_hook [OF g, of st] obtain s0 where
    s0: "\<not> loop (actor_at s0 self)" "block (actor_at s0 self)"
      "trace s0 = trace st @ [Set_gate (Block_gate self), Join_pool self]"
    and eq: "Actor_stop env self st =
               and_then (threads_join env self s0)
                 (\<lambda>s3. g ((log_record self Debug ''post_hook() found, executing'' s3)
                            \<lparr>trace := trace s3 @ [Call_post_hook self]\<rparr>))"
    by blast
  have "case threads_join env self s0 of
               Returned s1 \<Rightarrow>
                 (\<exists>s2. trace s2 = trace s1 @ [Call_post_hook self]
                    \<and> queue_at s2 = queue_at s1 \<and> event_at s2 = event_at s1
                    \<and> (\<forall>a. threads (actor_at s2 a) = threads (actor_at s1 a))
                    \<and> Actor_stop env self st = g s2)
             | Raised err s1 \<Rightarrow> Actor_stop env self st = Raised err s1
             | Blocked w s1 \<Rightarrow> Actor_stop env self st = Blocked w s1"
  proof (cases "threads_join env self s0")
    case (Returned s1)
    define s2 where "s2 = (log_record self Debug ''post_hook() found, executing'' s1)
                            \<lparr>trace := trace s1 @ [Call_post_hook self]\<rparr>"
    have "trace s2 = trace s1 @ [Call_post_hook self]
            \<and> queue_at s2 = queue_at s1 \<and> event_at s2 = event_at s1
            \<and> (\<forall>a. threads (actor_at s2 a) = threads (actor_at s1 a))
            \<and> Actor_stop env self st = g s2"
      by (simp add: s2_def eq Returned log_record_def update_actor_def)
    then have "\<exists>s2. trace s2 = trace s1 @ [Call_post_hook self]
                    \<and> queue_at s2 = queue_at s1 \<and> event_at s2 = event_at s1
                    \<and> (\<forall>a. threads (actor_at s2 a) = threads (actor_at s1 a))
                    \<and> Actor_stop env self st = g s2"
      by (rule exI)
    with Returned show ?thesis by simp
  next
    case (Raised err s1)
    then show ?thesis by (simp add: eq)
  next
    case (Blocked w s1)
    then show ?thesis by (simp add: eq)
  qed
  with s0 show "\<exists>s0. \<not> loop (actor_at s0 self) \<and> block (actor_at s0 self)
         \<and> trace s0 = trace st @ [Set_gate (Block_gate self), Join_pool self]
         \<and> (case threads_join env self s0 of
               Returned s1 \<Rightarrow>
                 (\<exists>s2. trace s2 = trace s1 @ [Call_post_hook self]
                    \<and> queue_at s2 = queue_at s1 \<and> event_at s2 = event_at s1
                    \<and> (\<forall>a. threads (actor_at s2 a) = threads (actor_at s1 a))
                    \<and> Actor_stop env self st = g s2)
             | Raised err s1 \<Rightarrow> Actor_stop env self st = Raised err s1
             | Blocked w s1 \<Rightarrow> Actor_stop env self st = Blocked w s1)"
    by blast
qed

theorem hooks_order_witness:
  "pre_hook pre_hooked_env 0 = Some Returned \<and> post_hook pre_hooked_env 0 = None
   \<and> (\<exists>s2. Actor_start pre_hooked_env 0 example_pair = Returned s2 \<and> run (actor_at s2 0)
          \<and> trace s2 = [Call_pre_hook 0, Set_gate (Run_gate 0)])
   \<and> \<not> run (actor_at example_pair 0)
   \<and> consumer pre_hooked_env 0 failing_consume 0 5 example_pair
        = Blocked (Wait_run 0) (At_run_wait, example_pair)
   \<and> post_hook post_hooked_env 0 = Some Returned \<and> pre_hook post_hooked_env 0 = None
   \<and> (\<exists>s2. Actor_stop post_hooked_env 0 example_pair = Returned s2
          \<and> trace s2 = [Set_gate (Block_gate 0), Join_pool 0, Call_post_hook 0])"
proof -
  have h: "pre_hook pre_hooked_env 0 = Some Returned" "post_hook pre_hooked_env 0 = None"
    "post_hook post_hooked_env 0 = Some Returned" "pre_hook post_hooked_env 0 = None"
    "threads_join post_hooked_env 0 = Returned"
    by (simp_all add: pre_hooked_env_def post_hooked_env_def example_env_def)
  have l: "dict_get (default_outbound_queues (pool (actor_at example_pair 0))) ''logs'' = Some 0"
    by (simp add: build_defs dict_get_def)
  have f: "trace example_pair = []" "\<not> run (actor_at example_pair 0)"
    by (simp_all add: build_defs)
  note t = hooks_order [of pre_hooked_env 0 Returned example_pair 0 Returned]
  note u = hooks_order [of post_hooked_env 0 Returned example_pair 0 Returned]
  from t h l f have a: "\<exists>s2. Actor_start pre_hooked_env 0 example_pair = Returned s2 \<and> run (actor_at s2 0)
          \<and> trace s2 = [Call_pre_hook 0, Set_gate (Run_gate 0)]"
    by auto
  from t f have b: "consumer pre_hooked_env 0 failing_consume 0 5 example_pair
        = Blocked (Wait_run 0) (At_run_wait, example_pair)"
    by simp
  from u h f have c: "\<exists>s2. Actor_stop post_hooked_env 0 example_pair = Returned s2
          \<and> trace s2 = [Set_gate (Block_gate 0), Join_pool 0, Call_post_hook 0]"
    by auto
  from a b c h f show ?thesis by blast
qed

subsection \<open>The director's shutdown\<close>

lemma director_log_record [simp]: "director (log_record a l m st) = director st"
  by (simp add: log_record_def update_actor_def)

lemma director_update_actor [simp]: "director (update_actor a f st) = director st"
  by (simp add: update_actor_def)








subsection \<open>Metrics\<close>













subsection \<open>The director's default wiring\<close>

lemma director_update_pool [simp]: "director (update_pool a f st) = director st"
  by (simp add: update_pool_def)

lemma director_spawn [simp]: "director (spawn a w r st) = director st"
  by (simp add: spawn_def)

lemma director_drain [simp]: "director (drain s d st) = director st"
  by (simp add: drain_def update_queue_def)

lemma null_instance_update_pool [simp]:
  "null_instance (actor_at (update_pool a f st) b) = null_instance (actor_at st b)"
  by (simp add: update_pool_def update_actor_def)

lemma null_instance_spawn [simp]:
  "null_instance (actor_at (spawn a w r st) b) = null_instance (actor_at st b)"
  by (simp add: spawn_def update_actor_def)

lemma null_instance_log_record [simp]:
  "null_instance (actor_at (log_record a l m st) b) = null_instance (actor_at st b)"
  by (simp add: log_record_def update_actor_def)

lemma null_instance_drain [simp]:
  "null_instance (actor_at (drain s d st) b) = null_instance (actor_at st b)"
  by (simp add: drain_def update_queue_def)


























end
